theory Spec2Isabelle
  imports Main
begin

section \<open>Target resolution: \<open>ParseTargets\<close> (cmd/bind.go, lines 21-50)\<close>

text \<open>
  A Go string is a sequence of bytes; it is modelled as a \<open>string\<close> (a list of 8-bit
  characters). The result type \<open>map[string]struct{}\<close> is a map from strings to the unit
  type; its key set is \<open>dom\<close>.
\<close>

subsection \<open>\<open>strings.Fields\<close> of the Go standard library\<close>

text \<open>
  \<open>strings.Fields\<close> splits its argument around each run of white space runes, as
  \<open>unicode.IsSpace\<close> defines them, and returns the non-empty pieces in order. The
  white space runes are U+0009..U+000D, U+0020, U+0085, U+00A0, U+1680, U+2000..U+200A,
  U+2028, U+2029, U+202F, U+205F and U+3000. On the bytes of the string they are the
  six ASCII bytes and the UTF-8 sequences C2 85, C2 A0, E1 9A 80, E2 80 80..8A,
  E2 80 A8, E2 80 A9, E2 80 AF, E2 81 9F and E3 80 80. Every such sequence starts with a
  byte that is no continuation byte, so the decoder always starts a rune there, and a
  byte decoded as part of any other rune (or as an invalid byte) belongs to the field.
\<close>

definition asciiSpace :: "char \<Rightarrow> bool" where
  "asciiSpace c \<longleftrightarrow>
     c = CHR 0x09 \<or> c = CHR 0x0A \<or> c = CHR 0x0B \<or> c = CHR 0x0C \<or> c = CHR 0x0D \<or> c = CHR 0x20"

definition space3 :: "char \<Rightarrow> char \<Rightarrow> char \<Rightarrow> bool" where
  "space3 a b c \<longleftrightarrow>
     (a = CHR 0xE1 \<and> b = CHR 0x9A \<and> c = CHR 0x80) \<or>
     (a = CHR 0xE2 \<and> b = CHR 0x80 \<and>
        (c \<in> set [CHR 0x80, CHR 0x81, CHR 0x82, CHR 0x83, CHR 0x84, CHR 0x85, CHR 0x86,
                   CHR 0x87, CHR 0x88, CHR 0x89, CHR 0x8A, CHR 0xA8, CHR 0xA9, CHR 0xAF])) \<or>
     (a = CHR 0xE2 \<and> b = CHR 0x81 \<and> c = CHR 0x9F) \<or>
     (a = CHR 0xE3 \<and> b = CHR 0x80 \<and> c = CHR 0x80)"

definition space2 :: "char \<Rightarrow> char \<Rightarrow> bool" where
  "space2 a b \<longleftrightarrow> a = CHR 0xC2 \<and> (b = CHR 0x85 \<or> b = CHR 0xA0)"

text \<open>The number of bytes of the white space rune a string starts with; 0 when it starts
  with none.\<close>

fun spaceWidth :: "string \<Rightarrow> nat" where
  "spaceWidth [] = 0"
| "spaceWidth [a] = (if asciiSpace a then 1 else 0)"
| "spaceWidth [a, b] = (if asciiSpace a then 1 else if space2 a b then 2 else 0)"
| "spaceWidth (a # b # c # rest) =
     (if asciiSpace a then 1 else if space2 a b then 2 else if space3 a b c then 3 else 0)"

text \<open>\<open>fieldsFrom s cur\<close> scans \<open>s\<close> with the field \<open>cur\<close> open (empty: no field is
  open).\<close>

definition closeField :: "string \<Rightarrow> string list" where
  "closeField cur = (if cur = [] then [] else [cur])"

function fieldsFrom :: "string \<Rightarrow> string \<Rightarrow> string list" where
  "fieldsFrom [] cur = closeField cur"
| "fieldsFrom (c # cs) cur =
     (if spaceWidth (c # cs) = 0 then fieldsFrom cs (cur @ [c])
      else closeField cur @ fieldsFrom (drop (spaceWidth (c # cs)) (c # cs)) [])"
  by pat_completeness auto
termination
  by (relation "measure (\<lambda>(s, cur). length s)") auto

definition Fields :: "string \<Rightarrow> string list" where
  "Fields s = fieldsFrom s []"

subsection \<open>The function\<close>

type_synonym targetSet = "string \<rightharpoonup> unit"

text \<open>The body of the \<open>switch\<close> statement inside the loop, for the token \<open>i\<close>.\<close>

definition addTarget :: "targetSet \<Rightarrow> string \<Rightarrow> targetSet" where
  "addTarget targets i =
     (if i = ''android'' then
        targets(''android'' \<mapsto> (), ''android/arm'' \<mapsto> (), ''android/arm64'' \<mapsto> (),
                ''android/386'' \<mapsto> (), ''android/amd64'' \<mapsto> ())
      else if i = ''android/arm'' \<or> i = ''android/arm64'' \<or> i = ''android/386'' \<or>
              i = ''android/amd64'' then
        targets(''android'' \<mapsto> (), i \<mapsto> ())
      else if i = ''ios'' then
        targets(''ios'' \<mapsto> (), ''ios/arm'' \<mapsto> (), ''ios/arm64'' \<mapsto> (),
                ''ios/386'' \<mapsto> (), ''ios/amd64'' \<mapsto> ())
      else if i = ''ios/arm'' \<or> i = ''ios/arm64'' \<or> i = ''ios/386'' \<or> i = ''ios/amd64'' then
        targets(''ios'' \<mapsto> (), i \<mapsto> ())
      else targets)"

text \<open>The \<open>for ... range targetsSlice\<close> loop, from the map built so far.\<close>

fun addTargets :: "targetSet \<Rightarrow> string list \<Rightarrow> targetSet" where
  "addTargets targets [] = targets"
| "addTargets targets (i # rest) = addTargets (addTarget targets i) rest"

definition ParseTargets :: "string \<Rightarrow> targetSet" where
  "ParseTargets a =
     (let targetsSlice = Fields a;
          targetsSlice = (if length targetsSlice = 0 then [''android'', ''ios'']
                          else targetsSlice)
      in addTargets Map.empty targetsSlice)"

subsection \<open>The known targets\<close>

text \<open>The ten keys the \<open>switch\<close> statement can store.\<close>

definition universe :: "string set" where
  "universe = {''android'', ''android/arm'', ''android/arm64'', ''android/386'', ''android/amd64'',
               ''ios'', ''ios/arm'', ''ios/arm64'', ''ios/386'', ''ios/amd64''}"

text \<open>A token is known when one of the four \<open>case\<close> lists of the \<open>switch\<close> names it.\<close>

definition knownToken :: "string \<Rightarrow> bool" where
  "knownToken i \<longleftrightarrow> i \<in> universe"

subsection \<open>The resolver as the specification words it\<close>

text \<open>
  The specification's resolver, written from its sentences and not from the code: there
  are two platforms, each with the same four architectures; a bare platform token adds the
  platform marker and every architecture of the platform; a fully-qualified token
  \<open>platform/arch\<close> adds the platform marker and exactly that architecture.
\<close>

definition platforms :: "string list" where
  "platforms = [''android'', ''ios'']"

definition architectures :: "string list" where
  "architectures = [''arm'', ''arm64'', ''386'', ''amd64'']"

definition targetName :: "string \<Rightarrow> string \<Rightarrow> string" where
  "targetName p a = p @ ''/'' @ a"

definition wellFormedToken :: "string \<Rightarrow> bool" where
  "wellFormedToken t \<longleftrightarrow>
     t \<in> set platforms \<or> (\<exists>p \<in> set platforms. \<exists>a \<in> set architectures. t = targetName p a)"

definition specResolveToken :: "string \<Rightarrow> string set" where
  "specResolveToken t =
     (if t \<in> set platforms then set (t # map (targetName t) architectures)
      else set (concat (map (\<lambda>p. concat (map (\<lambda>a. if t = targetName p a then [p, t] else [])
                                                  architectures))
                            platforms)))"

definition specResolve :: "string list \<Rightarrow> string set" where
  "specResolve ts = (\<Union>t \<in> set ts. specResolveToken t)"

section \<open>Properties of \<open>ParseTargets\<close>\<close>

lemmas spec_defs = specResolveToken_def platforms_def architectures_def targetName_def

lemma known_cases:
  assumes "knownToken t"
  obtains "t = ''android''" | "t = ''android/arm''" | "t = ''android/arm64''"
    | "t = ''android/386''" | "t = ''android/amd64''" | "t = ''ios''" | "t = ''ios/arm''"
    | "t = ''ios/arm64''" | "t = ''ios/386''" | "t = ''ios/amd64''"
  using assms unfolding knownToken_def universe_def by (elim insertE emptyE)

lemma specResolveToken_unknown: "\<not> knownToken t \<Longrightarrow> specResolveToken t = {}"
  by (simp add: spec_defs knownToken_def universe_def)

lemma specResolveToken_platform:
  "specResolveToken ''android'' =
     {''android'', ''android/arm'', ''android/arm64'', ''android/386'', ''android/amd64''}"
  "specResolveToken ''ios'' = {''ios'', ''ios/arm'', ''ios/arm64'', ''ios/386'', ''ios/amd64''}"
  by (simp_all add: spec_defs)

lemma specResolveToken_android_arch:
  "specResolveToken ''android/arm'' = {''android'', ''android/arm''}"
  "specResolveToken ''android/arm64'' = {''android'', ''android/arm64''}"
  "specResolveToken ''android/386'' = {''android'', ''android/386''}"
  "specResolveToken ''android/amd64'' = {''android'', ''android/amd64''}"
  by (simp_all add: spec_defs)

lemma specResolveToken_ios_arch:
  "specResolveToken ''ios/arm'' = {''ios'', ''ios/arm''}"
  "specResolveToken ''ios/arm64'' = {''ios'', ''ios/arm64''}"
  "specResolveToken ''ios/386'' = {''ios'', ''ios/386''}"
  "specResolveToken ''ios/amd64'' = {''ios'', ''ios/amd64''}"
  by (simp_all add: spec_defs)

lemmas specResolveToken_simps =
  specResolveToken_platform specResolveToken_android_arch specResolveToken_ios_arch

lemma dom_addTarget:
  "dom (addTarget targets i) = dom targets \<union> specResolveToken i"
proof (cases "knownToken i")
  case False
  then show ?thesis
    by (simp add: specResolveToken_unknown knownToken_def universe_def addTarget_def)
next
  case True
  then show ?thesis
    by (cases rule: known_cases) (auto simp: specResolveToken_simps addTarget_def)
qed

lemma specResolveToken_known: "specResolveToken t \<noteq> {} \<longleftrightarrow> knownToken t"
proof (cases "knownToken t")
  case False
  then show ?thesis by (simp add: specResolveToken_unknown)
next
  case True
  then show ?thesis
    by (cases rule: known_cases) (simp_all add: specResolveToken_simps knownToken_def universe_def)
qed

lemma specResolveToken_universe: "specResolveToken t \<subseteq> universe"
proof (cases "knownToken t")
  case False
  then show ?thesis by (simp add: specResolveToken_unknown)
next
  case True
  then show ?thesis
    by (cases rule: known_cases) (simp_all add: specResolveToken_simps universe_def)
qed

lemma wellFormedToken_known: "wellFormedToken t \<longleftrightarrow> knownToken t"
proof (cases "knownToken t")
  case False
  then show ?thesis
    by (simp add: wellFormedToken_def platforms_def architectures_def targetName_def
        knownToken_def universe_def)
next
  case True
  then show ?thesis
    by (cases rule: known_cases)
      (simp_all add: wellFormedToken_def platforms_def architectures_def targetName_def
        knownToken_def universe_def)
qed


lemma dom_addTargets:
  "dom (addTargets targets ts) = dom targets \<union> specResolve ts"
  by (induction ts arbitrary: targets) (auto simp: dom_addTarget specResolve_def)

lemma addTarget_unknown: "\<not> knownToken i \<Longrightarrow> addTarget targets i = targets"
  by (simp add: knownToken_def universe_def addTarget_def)

lemma addTargets_filter: "addTargets targets (filter knownToken ts) = addTargets targets ts"
  by (induction ts arbitrary: targets) (simp_all add: addTarget_unknown)

lemma specResolve_universe: "specResolve ts \<subseteq> universe"
  using specResolveToken_universe by (auto simp: specResolve_def)

lemma specResolve_default: "specResolve [''android'', ''ios''] = universe"
  by (simp add: specResolve_def specResolveToken_simps universe_def insert_commute)

lemma Fields_empty: "Fields [] = []"
  by (simp add: Fields_def closeField_def)

lemma Fields_android_ios: "Fields ''android ios'' = [''android'', ''ios'']"
  by (simp add: Fields_def closeField_def asciiSpace_def space2_def space3_def)

lemma Fields_windows: "Fields ''windows'' = [''windows'']"
  by (simp add: Fields_def closeField_def asciiSpace_def space2_def space3_def)

lemma Fields_ios_arm_windows: "Fields ''ios/arm windows'' = [''ios/arm'', ''windows'']"
  by (simp add: Fields_def closeField_def asciiSpace_def space2_def space3_def)

lemma dom_ParseTargets:
  "dom (ParseTargets a) =
     specResolve (if Fields a = [] then [''android'', ''ios''] else Fields a)"
  by (simp add: ParseTargets_def Let_def dom_addTargets)

lemma dom_ParseTargets_default: "dom (ParseTargets []) = universe"
  by (simp add: dom_ParseTargets Fields_empty specResolve_default)

text \<open>
  C3, as the claim states it, fails: a string whose only token is unknown has tokens, so
  the default is not taken, and the loop stores nothing.
\<close>

theorem ParseTargets_unknown_only_empty: "dom (ParseTargets ''windows'') = {}"
  by (simp add: ParseTargets_def Fields_windows addTarget_def)

text \<open>
  C3, amended: when the input has no token the result is the default set of all ten
  targets, and the result is empty exactly when the input has tokens and none of them is
  known; so the result is non-empty for an input with no token and for an input with at
  least one known token.
\<close>

theorem ParseTargets_nonempty_iff:
  "(Fields a = [] \<longrightarrow> dom (ParseTargets a) = universe) \<and>
   (dom (ParseTargets a) = {} \<longleftrightarrow> Fields a \<noteq> [] \<and> (\<forall>t \<in> set (Fields a). \<not> knownToken t))"
proof (cases "Fields a = []")
  case True
  have "universe \<noteq> {}" by (simp add: universe_def)
  with True show ?thesis by (simp add: dom_ParseTargets specResolve_default)
next
  case False
  then show ?thesis
    using specResolveToken_known by (auto simp: dom_ParseTargets specResolve_def)
qed

theorem ParseTargets_nonempty_iff_witness:
  "Fields [] = [] \<and> dom (ParseTargets []) = universe \<and>
   Fields ''ios/arm windows'' \<noteq> [] \<and> knownToken ''ios/arm'' \<and>
   dom (ParseTargets ''ios/arm windows'') \<noteq> {}"
  using ParseTargets_nonempty_iff [of "[]"] ParseTargets_nonempty_iff [of "''ios/arm windows''"]
  by (simp add: Fields_empty Fields_ios_arm_windows knownToken_def universe_def)

text \<open>
  C4: for an input with at least one token, all of whose tokens are well formed (a
  platform, or a platform and one of its architectures), the keys of the result are
  exactly what the specification's resolver gives for the tokens. The result is a map, in
  which a key occurs once.
\<close>

theorem ParseTargets_refines_spec:
  assumes "Fields a \<noteq> []" and "\<forall>t \<in> set (Fields a). wellFormedToken t"
  shows "dom (ParseTargets a) = specResolve (Fields a)"
  using assms by (simp add: dom_ParseTargets)

theorem ParseTargets_refines_spec_witness:
  "Fields ''ios/arm windows'' \<noteq> [] \<and> \<not> wellFormedToken ''windows'' \<and>
   Fields ''android ios'' = [''android'', ''ios''] \<and>
   wellFormedToken ''android'' \<and> wellFormedToken ''ios'' \<and>
   dom (ParseTargets ''android ios'') = universe"
  using ParseTargets_refines_spec [of "''android ios''"]
  by (simp add: Fields_android_ios Fields_ios_arm_windows wellFormedToken_known knownToken_def
      universe_def specResolve_default)

text \<open>
  C5: the empty string and the string naming both bare platforms give the same map, whose
  keys are the two platform markers and all eight platform/architecture pairs.
\<close>

theorem ParseTargets_default_eq:
  "ParseTargets [] = ParseTargets ''android ios'' \<and> dom (ParseTargets []) = universe"
  using dom_ParseTargets_default
  by (simp add: ParseTargets_def Fields_empty Fields_android_ios)

text \<open>
  C6: a token that is not known leaves the map unchanged, and the result is the one the
  loop gives on the known tokens alone. \<open>ParseTargets\<close> has no error result.
\<close>

theorem ParseTargets_ignores_unknown:
  "(\<not> knownToken i \<longrightarrow> addTarget targets i = targets) \<and>
   ParseTargets a =
     addTargets Map.empty
       (filter knownToken (if Fields a = [] then [''android'', ''ios''] else Fields a))"
  by (simp add: addTarget_unknown addTargets_filter ParseTargets_def Let_def)

theorem ParseTargets_ignores_unknown_witness:
  "\<not> knownToken ''windows'' \<and> addTarget Map.empty ''windows'' = Map.empty \<and>
   ParseTargets ''ios/arm windows'' = addTargets Map.empty [''ios/arm'']"
  using ParseTargets_ignores_unknown [of "''windows''" Map.empty "''ios/arm windows''"]
  by (simp add: Fields_ios_arm_windows knownToken_def universe_def)

text \<open>
  C10: every key of the result is one of the ten known targets, that is, a key of the
  default result.
\<close>

theorem ParseTargets_subset_universe:
  "dom (ParseTargets s) \<subseteq>
     {''android'', ''android/arm'', ''android/arm64'', ''android/386'', ''android/amd64'',
      ''ios'', ''ios/arm'', ''ios/arm64'', ''ios/386'', ''ios/amd64''} \<and>
   dom (ParseTargets s) \<subseteq> dom (ParseTargets [])"
proof -
  have "dom (ParseTargets s) \<subseteq> universe"
    by (simp only: dom_ParseTargets specResolve_universe)
  then show ?thesis
    by (simp only: dom_ParseTargets_default universe_def simp_thms)
qed

end
